theory Spec2Isabelle
  imports Main "HOL-Library.Sublist"
begin

section \<open>JavaScript values met by src/engine.ts\<close>

text \<open>
  A JavaScript number, as \<^verbatim>\<open>port?: number\<close> admits any: an integer (\<open>Finite\<close>, taken
  exact), a finite number that is not an integer (\<open>NonInteger\<close>, known by the decimal
  text that \<^verbatim>\<open>String\<close> and \<^verbatim>\<open>JSON.stringify\<close> print for it, such as 3000.5), the two
  infinities, and NaN, which is what \<^verbatim>\<open>parseInt\<close> answers for a string that does not
  start with digits. Of these only 0 and NaN are falsy.
\<close>

datatype jsnum = Finite int | NonInteger string | Infinity | MinusInfinity | NaN

text \<open>A thrown JavaScript error and its message; \<open>TypeError\<close> is the runtime's own.\<close>

datatype error = Error string | TypeError

text \<open>How a synchronous call ends.\<close>

datatype 'a completion = Returns 'a | Throws error

text \<open>How a promise ends: an \<^verbatim>\<open>async\<close> function's throw is a rejection.\<close>

datatype 'a settled = Fulfilled 'a | Rejected error | Unsettled

text \<open>What an external collaborator's promise will do; it is not the engine's choice.\<close>

datatype 'a outcome = Resolves 'a | Rejects error | NeverSettles

subsection \<open>Characters and strings\<close>

text \<open>
  A string is a list of code units below 256. The single quote, the double quote and
  the backslash are written by their codes.
\<close>

definition backslash :: char where
  "backslash = CHR 0x5C"

definition quote :: char where
  "quote = CHR 0x27"

definition dquote :: char where
  "dquote = CHR 0x22"

definition is_digit :: "char \<Rightarrow> bool" where
  "is_digit c = (48 \<le> (of_char c :: nat) \<and> (of_char c :: nat) \<le> 57)"

text \<open>
  \<^verbatim>\<open>StrWhiteSpaceChar\<close> of the language: TAB, LF, VT, FF, CR, SP and NBSP are the ones
  below 256.
\<close>

definition StrWhiteSpaceChar :: "char \<Rightarrow> bool" where
  "StrWhiteSpaceChar c = ((of_char c :: nat) \<in> {9, 10, 11, 12, 13, 32, 160})"

definition digit_value :: "char \<Rightarrow> nat" where
  "digit_value c = of_char c - 48"

definition digits_value :: "string \<Rightarrow> nat" where
  "digits_value ds = foldl (\<lambda>acc c. 10 * acc + digit_value c) 0 ds"

text \<open>
  \<^verbatim>\<open>parseInt(inputString, 10)\<close>: leading white space is skipped, one sign is read, then
  the longest run of decimal digits; no digit gives NaN. What follows the digits is
  ignored. With radix 10 no \<^verbatim>\<open>0x\<close> prefix is stripped.
\<close>

definition parseInt :: "string \<Rightarrow> jsnum" where
  "parseInt inputString =
     (let S = dropWhile StrWhiteSpaceChar inputString;
          sign = (if S \<noteq> [] \<and> hd S = CHR ''-'' then - 1 else 1 :: int);
          S' = (if S \<noteq> [] \<and> (hd S = CHR ''+'' \<or> hd S = CHR ''-'') then tl S else S);
          Z = takeWhile is_digit S'
      in if Z = [] then NaN else Finite (sign * int (digits_value Z)))"

definition isNaN :: "jsnum \<Rightarrow> bool" where
  "isNaN x = (x = NaN)"

definition startsWith :: "string \<Rightarrow> string \<Rightarrow> bool" where
  "startsWith s searchString = prefix searchString s"

text \<open>The decimal form of an integer, as a template literal or \<^verbatim>\<open>String\<close> prints it.\<close>

definition digit_char :: "nat \<Rightarrow> char" where
  "digit_char d = char_of (48 + d)"

function decimal_nat :: "nat \<Rightarrow> string" where
  "decimal_nat n = (if n < 10 then [digit_char n] else decimal_nat (n div 10) @ [digit_char (n mod 10)])"
  by pat_completeness auto
termination
  by (relation "measure (\<lambda>n. n)") auto

declare decimal_nat.simps [simp del]

definition decimal :: "int \<Rightarrow> string" where
  "decimal n = (if n < 0 then CHR ''-'' # decimal_nat (nat (- n)) else decimal_nat (nat n))"

section \<open>The options of listen\<close>

text \<open>
  \<^verbatim>\<open>LauncherOptions\<close> is declared in \<^verbatim>\<open>./types\<close>; the engine reads and writes
  \<^verbatim>\<open>extraArgs\<close> only.
\<close>

record launcher_options =
  extraArgs :: "string list option"

text \<open>\<^verbatim>\<open>port?: number | string\<close>\<close>

datatype port_value = NumberPort jsnum | StringPort string

text \<open>
  The server objects of the program. \<open>Server k\<close> is an \<^verbatim>\<open>http.Server\<close> the caller
  built, \<open>WebAppServer\<close> is Meteor's \<^verbatim>\<open>webApp.httpServer\<close>, the next three are
  \<^verbatim>\<open>new HttpServer(...)\<close> around a framework app, the last is \<^verbatim>\<open>restifyServer.server\<close>.
\<close>

datatype server =
    Server nat
  | WebAppServer
  | ExpressServer nat
  | ConnectServer nat
  | KoaServer nat
  | RestifyInner nat

text \<open>An absent (\<^verbatim>\<open>undefined\<close>) property is \<open>None\<close>. The three interfaces extend one another.\<close>

record meteor_listen_options =
  graphqlPaths :: "string list option"
  innerHost :: "string option"
  launcherOptions :: "launcher_options option"

record core_listen_options = meteor_listen_options +
  port :: "port_value option"
  host :: "string option"
  pipePath :: "string option"

record listen_options = core_listen_options +
  httpServer :: "server option"
  expressApp :: "nat option"
  connectApp :: "nat option"
  koaApp :: "nat option"
  restifyServer :: "nat option"

section \<open>startEngine: normalising the target (src/engine.ts, lines 224 to 245)\<close>

definition winPipePrefix :: string where
  "winPipePrefix = [backslash, backslash, CHR ''.'', backslash] @ ''pipe''"

definition port_message :: "string \<Rightarrow> string" where
  "port_message stringPort =
     ''port must be an integer or a Windows named pipe, '' @ ''not '' @ [quote] @ stringPort @ [quote]"

definition only_one_message :: string where
  "only_one_message = ''Only one of `port `and `pipePath` may be set''"

text \<open>Line 243: the check that closes the normalisation.\<close>

definition only_one :: "'a core_listen_options_scheme \<Rightarrow> unit completion" where
  "only_one options =
     (if pipePath options \<noteq> None \<and> port options \<noteq> None
      then Throws (Error only_one_message)
      else Returns ())"

text \<open>
  The options object is the caller's own and is written in place, so the object as it
  is when the block ends (also when it ends in a throw) is returned with the completion.
\<close>

definition normalize_options :: "'a core_listen_options_scheme \<Rightarrow> unit completion \<times> 'a core_listen_options_scheme" where
  "normalize_options options =
     (if port options = None \<and> pipePath options = None
      then (Throws (Error ''Either `port` or `pipePath` must be defined''), options)
      else (case port options of
          Some (StringPort stringPort) \<Rightarrow>
            (let options1 = options\<lparr>port := Some (NumberPort (parseInt stringPort))\<rparr>
             in if isNaN (parseInt stringPort)
                then (if startsWith stringPort (winPipePrefix @ [backslash])
                      then (let options2 = options1\<lparr>pipePath := Some stringPort\<rparr>;
                                options3 = options2\<lparr>port := None\<rparr>
                            in (only_one options3, options3))
                      else (Throws (Error (port_message stringPort)), options1))
                else (only_one options1, options1))
        | _ \<Rightarrow> (only_one options, options)))"

section \<open>startEngine: the payload for engineproxy (lines 246 to 263)\<close>

text \<open>An address the embedding server is bound to, as \<^verbatim>\<open>httpServer.address()\<close> gives it.\<close>

record inner_address =
  inner_port :: int
  address :: string

text \<open>
  The \<^verbatim>\<open>defaults\<close> object literal. \<^verbatim>\<open>JSON.stringify\<close> leaves out a property whose
  value is \<^verbatim>\<open>undefined\<close>, so \<open>None\<close> is a field the proxy never sees.
\<close>

record defaults =
  frontendHost :: "string option"
  frontendPort :: "port_value option"
  frontendPipePath :: "string option"
  defaults_graphqlPaths :: "string list"
  originUrl :: string
  useFrontendPathForDefaultOrigin :: bool

text \<open>
  \<^verbatim>\<open>options.port || undefined\<close>: the numbers 0 and NaN and the empty string are falsy;
  every other number, also a fraction or an infinity, is kept.
\<close>

definition port_or_undefined :: "port_value option \<Rightarrow> port_value option" where
  "port_or_undefined p =
     (case p of
        None \<Rightarrow> None
      | Some (NumberPort x) \<Rightarrow> if x = Finite 0 \<or> x = NaN then None else Some (NumberPort x)
      | Some (StringPort s) \<Rightarrow> if s = [] then None else Some (StringPort s))"

text \<open>\<^verbatim>\<open>options.pipePath || undefined\<close>\<close>

definition string_or_undefined :: "string option \<Rightarrow> string option" where
  "string_or_undefined p = (case p of None \<Rightarrow> None | Some s \<Rightarrow> if s = [] then None else Some s)"

text \<open>
  Modelled from the spec: \<^verbatim>\<open>joinHostPort\<close> is imported from \<^verbatim>\<open>./launcher\<close>, which is
  not among the sources. The spec gives \<^verbatim>\<open>originUrl\<close> as
  \<^verbatim>\<open>"http://" + address + ":" + port\<close>.
\<close>

definition joinHostPort :: "string \<Rightarrow> int \<Rightarrow> string" where
  "joinHostPort h p = h @ '':'' @ decimal p"

definition make_defaults :: "inner_address \<Rightarrow> 'a core_listen_options_scheme \<Rightarrow> defaults" where
  "make_defaults innerAddress options =
     \<lparr> frontendHost = host options,
       frontendPort = port_or_undefined (port options),
       frontendPipePath = string_or_undefined (pipePath options),
       defaults_graphqlPaths = (case graphqlPaths options of None \<Rightarrow> [''/graphql''] | Some ps \<Rightarrow> ps),
       originUrl = ''http://'' @ joinHostPort (address innerAddress) (inner_port innerAddress),
       useFrontendPathForDefaultOrigin = True \<rparr>"

subsection \<open>JSON.stringify of the payload\<close>

definition hex_digit :: "nat \<Rightarrow> char" where
  "hex_digit d = (if d < 10 then char_of (48 + d) else char_of (87 + d))"

definition QuoteJSONChar :: "char \<Rightarrow> string" where
  "QuoteJSONChar c =
     (let n = (of_char c :: nat)
      in if n = 8 then [backslash, CHR ''b'']
         else if n = 9 then [backslash, CHR ''t'']
         else if n = 10 then [backslash, CHR ''n'']
         else if n = 12 then [backslash, CHR ''f'']
         else if n = 13 then [backslash, CHR ''r'']
         else if c = dquote then [backslash, dquote]
         else if c = backslash then [backslash, backslash]
         else if n < 32 then [backslash, CHR ''u'', CHR ''0'', CHR ''0'', hex_digit (n div 16), hex_digit (n mod 16)]
         else [c])"

definition QuoteJSONString :: "string \<Rightarrow> string" where
  "QuoteJSONString s = [dquote] @ concat (map QuoteJSONChar s) @ [dquote]"

fun join :: "string \<Rightarrow> string list \<Rightarrow> string" where
  "join sep [] = []"
| "join sep [x] = x"
| "join sep (x # y # ys) = x @ sep @ join sep (y # ys)"

text \<open>\<^verbatim>\<open>JSON.stringify\<close> writes a number that is not finite as \<^verbatim>\<open>null\<close>.\<close>

definition stringify_port :: "port_value \<Rightarrow> string" where
  "stringify_port p =
     (case p of
        NumberPort (Finite n) \<Rightarrow> decimal n
      | NumberPort (NonInteger digits) \<Rightarrow> digits
      | NumberPort Infinity \<Rightarrow> ''null''
      | NumberPort MinusInfinity \<Rightarrow> ''null''
      | NumberPort NaN \<Rightarrow> ''null''
      | StringPort s \<Rightarrow> QuoteJSONString s)"

definition json_member :: "string \<Rightarrow> string \<Rightarrow> string" where
  "json_member key v = QuoteJSONString key @ '':'' @ v"

definition optional_member :: "string \<Rightarrow> string option \<Rightarrow> string list" where
  "optional_member key v = (case v of None \<Rightarrow> [] | Some x \<Rightarrow> [json_member key x])"

definition stringify :: "defaults \<Rightarrow> string" where
  "stringify d =
     ''{'' @ join '','' (
        optional_member ''frontendHost'' (map_option QuoteJSONString (frontendHost d)) @
        optional_member ''frontendPort'' (map_option stringify_port (frontendPort d)) @
        optional_member ''frontendPipePath'' (map_option QuoteJSONString (frontendPipePath d)) @
        [json_member ''graphqlPaths'' (''['' @ join '','' (map QuoteJSONString (defaults_graphqlPaths d)) @ '']''),
         json_member ''originUrl'' (QuoteJSONString (originUrl d)),
         json_member ''useFrontendPathForDefaultOrigin''
           (if useFrontendPathForDefaultOrigin d then ''true'' else ''false'')]) @ ''}''"

text \<open>
  Lines 259 to 263: a copy of the caller's launcher options (an empty object when there
  is none) whose \<^verbatim>\<open>extraArgs\<close> is a new array.
\<close>

definition make_launcherOptions :: "launcher_options option \<Rightarrow> defaults \<Rightarrow> launcher_options" where
  "make_launcherOptions lo d =
     (let launcherOptions = (case lo of None \<Rightarrow> \<lparr> extraArgs = None \<rparr> | Some l \<Rightarrow> l)
      in launcherOptions\<lparr> extraArgs :=
           Some ((case extraArgs launcherOptions of None \<Rightarrow> [] | Some xs \<Rightarrow> xs)
                 @ [''-defaults='' @ stringify d]) \<rparr>)"

section \<open>The session and its surroundings\<close>

text \<open>
  Modelled from the spec: \<^verbatim>\<open>ListeningAddress\<close> is declared in \<^verbatim>\<open>./types\<close>, which is
  not among the sources. The spec has the proxy's start resolve to an address and a
  port; the engine only stores the value.
\<close>

record listening_address =
  la_address :: string
  la_port :: int

text \<open>\<^verbatim>\<open>EngineNetListenOptions\<close>: what a framework hands to a server's listen.\<close>

record net_listen_options =
  net_path :: "string option"
  net_port :: "jsnum option"
  net_host :: "string option"
  net_pipePath :: "string option"

text \<open>
  Functions passed around as values. \<open>UserCallback k\<close> is a function of the caller,
  known by a handle only. \<open>EngineListening options listenCallback\<close> is the arrow
  function of lines 110 to 124, with the variables it closes over.
\<close>

datatype callback =
    UserCallback nat
  | EngineListening listen_options "callback option"

text \<open>What the program does to the outside, in the order it does it.\<close>

datatype event =
    ServerListen server net_listen_options callback
  | ServerClose server
  | LauncherStart launcher_options
  | LauncherStop
  | CallbackInvoked nat
  | ErrorEmitted error

text \<open>What \<^verbatim>\<open>process.nextTick\<close> was given: a function to call, or the emit of line 122.\<close>

datatype task = Call callback | EmitError error

text \<open>
  The properties that \<^verbatim>\<open>meteorListen\<close> overwrites: \<^verbatim>\<open>webApp.httpServer.listen\<close> is the
  server's own method or the function of lines 186 to 192, and \<^verbatim>\<open>webApp.startListening\<close>
  is absent, Meteor's own, or the function of lines 173 to 179. Both functions close
  over the options given to \<^verbatim>\<open>meteorListen\<close>, the first one also over
  \<^verbatim>\<open>originalListen\<close>, the method it found on the server.
\<close>

datatype listen_method = OriginalListen | OneShotListen meteor_listen_options listen_method

datatype start_hook = MeteorStartListening | EngineStartListening meteor_listen_options

text \<open>
  The state: the two mutable fields of \<^verbatim>\<open>ApolloEngine\<close>, the two properties of the Meteor
  \<^verbatim>\<open>webApp\<close>, the queue of \<^verbatim>\<open>process.nextTick\<close> and the events so far (oldest first).
\<close>

record world =
  engine_httpServer :: "server option"
  engineListeningAddress :: "listening_address option"
  webApp_startListening :: "start_hook option"
  webApp_httpServer_listen :: listen_method
  nextTick :: "task list"
  trace :: "event list"

text \<open>The constructor sets \<^verbatim>\<open>httpServer\<close> to null; the address is not initialised.\<close>

definition new_world :: world where
  "new_world =
     \<lparr> engine_httpServer = None, engineListeningAddress = None,
       webApp_startListening = None, webApp_httpServer_listen = OriginalListen,
       nextTick = [], trace = [] \<rparr>"

section \<open>listen (lines 62 to 126) and the Meteor polyfill (lines 139 to 168)\<close>

text \<open>
  Lines 68 to 89: each source that is given overwrites the local \<^verbatim>\<open>httpServer\<close> and
  is counted.
\<close>

definition pick_server :: "listen_options \<Rightarrow> server option \<times> nat" where
  "pick_server options =
     (let (httpServer0, appsProvided0) = (None, 0);
          (httpServer1, appsProvided1) =
             (case httpServer options of Some s \<Rightarrow> (Some s, appsProvided0 + 1) | None \<Rightarrow> (httpServer0, appsProvided0));
          (httpServer2, appsProvided2) =
             (case expressApp options of Some a \<Rightarrow> (Some (ExpressServer a), appsProvided1 + 1) | None \<Rightarrow> (httpServer1, appsProvided1));
          (httpServer3, appsProvided3) =
             (case connectApp options of Some a \<Rightarrow> (Some (ConnectServer a), appsProvided2 + 1) | None \<Rightarrow> (httpServer2, appsProvided2));
          (httpServer4, appsProvided4) =
             (case koaApp options of Some a \<Rightarrow> (Some (KoaServer a), appsProvided3 + 1) | None \<Rightarrow> (httpServer3, appsProvided3));
          (httpServer5, appsProvided5) =
             (case restifyServer options of Some a \<Rightarrow> (Some (RestifyInner a), appsProvided4 + 1) | None \<Rightarrow> (httpServer4, appsProvided4))
      in (httpServer5, appsProvided5))"

definition no_port_message :: string where
  "no_port_message = ''Must provide either the `pipePath` or the `port` that your app will be accessible on.''"

definition no_app_message :: string where
  "no_app_message =
     ''Must provide '' @ [dquote] @ ''httpServer'' @ [dquote] @ '', '' @ [dquote] @ ''expressApp'' @ [dquote]
     @ '', '' @ [dquote] @ ''connectApp'' @ [dquote] @ '', '' @ [dquote] @ ''koaApp'' @ [dquote]
     @ '', or '' @ [dquote] @ ''restifyServer'' @ [dquote]"

definition many_apps_message :: string where
  "many_apps_message =
     ''Must only provide one of '' @ [dquote] @ ''httpServer'' @ [dquote] @ '', '' @ [dquote] @ ''expressApp'' @ [dquote]
     @ '', '' @ [dquote] @ ''connectApp'' @ [dquote] @ '', '' @ [dquote] @ ''koaApp'' @ [dquote]
     @ '', and '' @ [dquote] @ ''restifyServer'' @ [dquote]"

text \<open>
  A server's own listen: the bind is asked of the system and the function is kept for
  the moment the server is listening. The call returns at once.
\<close>

definition native_listen :: "server \<Rightarrow> net_listen_options \<Rightarrow> callback \<Rightarrow> world \<Rightarrow> unit completion \<times> world" where
  "native_listen srv listenOptions cb w = (Returns (), w\<lparr>trace := trace w @ [ServerListen srv listenOptions cb]\<rparr>)"

text \<open>\<^verbatim>\<open>{ port: 0, host: options.innerHost || '127.0.0.1' }\<close>\<close>

definition inner_listen_options :: "listen_options \<Rightarrow> net_listen_options" where
  "inner_listen_options options =
     \<lparr> net_path = None, net_port = Some (Finite 0),
       net_host = Some (case innerHost options of None \<Rightarrow> ''127.0.0.1'' | Some h \<Rightarrow> if h = [] then ''127.0.0.1'' else h),
       net_pipePath = None \<rparr>"

text \<open>\<^verbatim>\<open>{ ...options, ...engineListenOptions, httpServer }\<close> for the two shapes of lines 151 and 155.\<close>

definition pipe_options :: "meteor_listen_options \<Rightarrow> string \<Rightarrow> server \<Rightarrow> listen_options" where
  "pipe_options options p srv =
     \<lparr> graphqlPaths = graphqlPaths options, innerHost = innerHost options,
       launcherOptions = launcherOptions options,
       port = None, host = None, pipePath = Some p,
       httpServer = Some srv, expressApp = None, connectApp = None, koaApp = None,
       restifyServer = None \<rparr>"

definition port_options :: "meteor_listen_options \<Rightarrow> jsnum \<Rightarrow> string option \<Rightarrow> server \<Rightarrow> listen_options" where
  "port_options options p h srv =
     \<lparr> graphqlPaths = graphqlPaths options, innerHost = innerHost options,
       launcherOptions = launcherOptions options,
       port = Some (NumberPort p), host = h, pipePath = None,
       httpServer = Some srv, expressApp = None, connectApp = None, koaApp = None,
       restifyServer = None \<rparr>"

text \<open>How many replacements deep the server's listen method is.\<close>

fun patches :: "listen_method \<Rightarrow> nat" where
  "patches OriginalListen = 0"
| "patches (OneShotListen options originalListen) = Suc (patches originalListen)"

text \<open>
  Three functions that call one another: \<open>server_listen\<close> is a call of the listen
  method found on a server (only \<^verbatim>\<open>webApp.httpServer\<close> can carry a replaced one, the
  function of lines 186 to 192); \<open>listenPolyfill\<close> is the function made by
  \<^verbatim>\<open>makeListenPolyfill(httpServer)\<close>; \<open>listen\<close> is \<^verbatim>\<open>ApolloEngine.listen\<close>. A throw
  before line 101 leaves the state as it was.
\<close>

function server_listen :: "server \<Rightarrow> net_listen_options \<Rightarrow> callback \<Rightarrow> world \<Rightarrow> unit completion \<times> world"
  and listenPolyfill :: "meteor_listen_options \<Rightarrow> server \<Rightarrow> net_listen_options \<Rightarrow> callback \<Rightarrow> world \<Rightarrow> unit completion \<times> world"
  and listen :: "listen_options \<Rightarrow> callback option \<Rightarrow> world \<Rightarrow> unit completion \<times> world"
where
  "server_listen srv listenOptions cb w =
     (if srv = WebAppServer
      then (case webApp_httpServer_listen w of
              OriginalListen \<Rightarrow> native_listen srv listenOptions cb w
            | OneShotListen options originalListen \<Rightarrow>
                listenPolyfill options WebAppServer listenOptions cb
                  (w\<lparr>webApp_httpServer_listen := originalListen\<rparr>))
      else native_listen srv listenOptions cb w)"
| "listenPolyfill options srv listenOptions cb w =
     (if net_path listenOptions \<noteq> None
      then (Throws (Error ''Engine does not support listening on a path''), w)
      else (case net_port listenOptions of
              None \<Rightarrow>
                (case string_or_undefined (net_pipePath listenOptions) of
                   None \<Rightarrow> (Throws (Error ''Engine needs a port or a pipe name to listen on''), w)
                 | Some p \<Rightarrow> listen (pipe_options options p srv) (Some cb) w)
            | Some p \<Rightarrow> listen (port_options options p (net_host listenOptions) srv) (Some cb) w))"
| "listen options listenCallback w =
     (if port options = None \<and> pipePath options = None
      then (Throws (Error no_port_message), w)
      else (let (httpServer', appsProvided) = pick_server options
            in if appsProvided = 0 then (Throws (Error no_app_message), w)
               else if appsProvided > 1 then (Throws (Error many_apps_message), w)
               else (case httpServer' of
                       None \<Rightarrow> (Throws TypeError, w\<lparr>engine_httpServer := None\<rparr>)
                     | Some srv \<Rightarrow>
                         server_listen srv (inner_listen_options options)
                           (EngineListening options listenCallback)
                           (w\<lparr>engine_httpServer := Some srv\<rparr>))))"
  by pat_completeness auto
termination
  apply (relation "measure (\<lambda>x. case x of
      Inl (srv, lo, cb, w) \<Rightarrow> 3 * patches (webApp_httpServer_listen w)
    | Inr (Inl (options, srv, lo, cb, w)) \<Rightarrow> 3 * patches (webApp_httpServer_listen w) + 2
    | Inr (Inr (options, cb, w)) \<Rightarrow> 3 * patches (webApp_httpServer_listen w) + 1)")
     apply auto
  done

declare server_listen.simps [simp del] listenPolyfill.simps [simp del] listen.simps [simp del]

section \<open>startEngine, the listening callback, the ticks, stop and meteorListen\<close>

text \<open>
  \<^verbatim>\<open>startEngine\<close> (lines 220 to 266) is \<^verbatim>\<open>async\<close>: a throw of the normalisation is a
  rejection. What the launcher's \<^verbatim>\<open>start\<close> will do is the collaborator's affair and
  is given as \<open>start\<close>. The caller's options object, as written, is returned too.
\<close>

definition startEngine ::
  "inner_address \<Rightarrow> 'a core_listen_options_scheme \<Rightarrow> listening_address outcome \<Rightarrow> world
   \<Rightarrow> unit settled \<times> 'a core_listen_options_scheme \<times> world" where
  "startEngine innerAddress options0 start w =
     (case normalize_options options0 of
        (Throws e, options) \<Rightarrow> (Rejected e, options, w)
      | (Returns _, options) \<Rightarrow>
          (let defaults = make_defaults innerAddress options;
               launcherOptions = make_launcherOptions (launcherOptions options) defaults;
               w1 = w\<lparr>trace := trace w @ [LauncherStart launcherOptions]\<rparr>
           in case start of
                Resolves a \<Rightarrow> (Fulfilled (), options, w1\<lparr>engineListeningAddress := Some a\<rparr>)
              | Rejects e \<Rightarrow> (Rejected e, options, w1)
              | NeverSettles \<Rightarrow> (Unsettled, options, w1)))"

text \<open>
  Calling a function value. A function of the caller is only recorded as called. The
  arrow function of lines 110 to 124 runs \<^verbatim>\<open>startEngine\<close> on the address the server is
  bound to, then hands the callback, or the error, to \<^verbatim>\<open>process.nextTick\<close>.
\<close>

fun invoke :: "callback \<Rightarrow> inner_address \<Rightarrow> listening_address outcome \<Rightarrow> world \<Rightarrow> world" where
  "invoke (UserCallback k) innerAddress start w = w\<lparr>trace := trace w @ [CallbackInvoked k]\<rparr>"
| "invoke (EngineListening options listenCallback) innerAddress start w =
     (case startEngine innerAddress options start w of
        (Fulfilled _, options', w1) \<Rightarrow>
          (case listenCallback of
             None \<Rightarrow> w1
           | Some cb \<Rightarrow> w1\<lparr>nextTick := nextTick w1 @ [Call cb]\<rparr>)
      | (Rejected e, options', w1) \<Rightarrow> w1\<lparr>nextTick := nextTick w1 @ [EmitError e]\<rparr>
      | (Unsettled, options', w1) \<Rightarrow> w1)"

declare invoke.simps [simp del]

text \<open>
  One turn of the \<^verbatim>\<open>process.nextTick\<close> queue: the oldest task is taken off and run.
  \<open>innerAddress\<close> and \<open>start\<close> are what the surroundings would answer in that turn.
\<close>

definition run_tick :: "inner_address \<Rightarrow> listening_address outcome \<Rightarrow> world \<Rightarrow> world" where
  "run_tick innerAddress start w =
     (case nextTick w of
        [] \<Rightarrow> w
      | t # ts \<Rightarrow>
          (case t of
             Call cb \<Rightarrow> invoke cb innerAddress start (w\<lparr>nextTick := ts\<rparr>)
           | EmitError e \<Rightarrow> w\<lparr>nextTick := ts, trace := trace w @ [ErrorEmitted e]\<rparr>))"

text \<open>
  \<^verbatim>\<open>stop\<close> (lines 129 to 134). \<open>launcher_stop\<close> is what the launcher's \<^verbatim>\<open>stop\<close> will do.
  Calling \<^verbatim>\<open>close\<close> on a null \<^verbatim>\<open>httpServer\<close> is a TypeError.
\<close>

definition stop :: "unit outcome \<Rightarrow> world \<Rightarrow> unit settled \<times> world" where
  "stop launcher_stop w =
     (let w1 = w\<lparr>trace := trace w @ [LauncherStop]\<rparr>
      in case launcher_stop of
           Rejects e \<Rightarrow> (Rejected e, w1)
         | NeverSettles \<Rightarrow> (Unsettled, w1)
         | Resolves _ \<Rightarrow>
             (case engine_httpServer w1 of
                None \<Rightarrow> (Rejected TypeError, w1)
              | Some srv \<Rightarrow>
                  (Fulfilled (), w1\<lparr>trace := trace w1 @ [ServerClose srv], engine_httpServer := None\<rparr>)))"


text \<open>
  The function of lines 173 to 179, which \<^verbatim>\<open>meteorListen\<close> stores as
  \<^verbatim>\<open>webApp.startListening\<close>: called by Meteor, it is the polyfill on the server given.
\<close>

definition engine_startListening ::
  "meteor_listen_options \<Rightarrow> server \<Rightarrow> net_listen_options \<Rightarrow> callback \<Rightarrow> world \<Rightarrow> unit completion \<times> world" where
  "engine_startListening options httpServer' listenOptions cb w =
     listenPolyfill options httpServer' listenOptions cb w"

section \<open>Notions used to state the properties\<close>

text \<open>How many of the five server sources an options object gives.\<close>

definition sources :: "listen_options \<Rightarrow> nat" where
  "sources options =
     (if httpServer options = None then 0 else 1) + (if expressApp options = None then 0 else 1)
     + (if connectApp options = None then 0 else 1) + (if koaApp options = None then 0 else 1)
     + (if restifyServer options = None then 0 else 1)"

text \<open>A port that is a number, or a string in which \<^verbatim>\<open>parseInt\<close> finds one.\<close>

definition numeric_port :: "port_value \<Rightarrow> bool" where
  "numeric_port p = (case p of NumberPort x \<Rightarrow> True | StringPort s \<Rightarrow> parseInt s \<noteq> NaN)"

subsection \<open>Concrete inputs\<close>

definition example_address :: inner_address where
  "example_address = \<lparr> inner_port = 4321, address = ''127.0.0.1'' \<rparr>"

definition example_options :: listen_options where
  "example_options =
     \<lparr> graphqlPaths = None, innerHost = None, launcherOptions = None,
       port = Some (NumberPort (Finite 3000)), host = None, pipePath = None,
       httpServer = Some (Server 1), expressApp = None, connectApp = None, koaApp = None,
       restifyServer = None \<rparr>"

definition proxy_address :: listening_address where
  "proxy_address = \<lparr> la_address = ''1.2.3.4'', la_port = 9000 \<rparr>"

text \<open>A pipe path of the accepted form, with the backslashes written by code.\<close>

definition example_pipe :: string where
  "example_pipe = winPipePrefix @ [backslash] @ ''foo''"

text \<open>
  A session that went through a whole successful start: \<^verbatim>\<open>listen\<close> was called, the
  server came to listen, the proxy answered with its address, and the tick ran.
\<close>

definition live_world :: world where
  "live_world =
     run_tick example_address NeverSettles
       (invoke (EngineListening example_options (Some (UserCallback 7))) example_address
          (Resolves proxy_address)
          (snd (listen example_options (Some (UserCallback 7)) new_world)))"



section \<open>Decimal strings are read back by parseInt\<close>

lemma of_char_digit_char: "d < 10 \<Longrightarrow> (of_char (digit_char d) :: nat) = 48 + d"
  by (simp add: digit_char_def)

lemma digit_char_eq: "d < 10 \<Longrightarrow> (of_char c :: nat) = 48 + d \<Longrightarrow> digit_char d = c"
  by (rule of_char_eqI [where ?'a = nat]) (simp add: of_char_digit_char)

lemma digit_char_props:
  assumes "d < 10"
  shows "is_digit (digit_char d)" "digit_value (digit_char d) = d"
    "\<not> StrWhiteSpaceChar (digit_char d)" "digit_char d \<noteq> CHR ''-''" "digit_char d \<noteq> CHR ''+''"
proof -
  note oc = of_char_digit_char [OF assms]
  show "is_digit (digit_char d)" using assms by (simp add: is_digit_def oc)
  show "digit_value (digit_char d) = d" by (simp add: digit_value_def oc)
  show "\<not> StrWhiteSpaceChar (digit_char d)" using assms by (simp add: StrWhiteSpaceChar_def oc)
  show "digit_char d \<noteq> CHR ''-''"
  proof
    assume "digit_char d = CHR ''-''"
    then have "(of_char (digit_char d) :: nat) = of_char CHR ''-''" by simp
    with oc show False by simp
  qed
  show "digit_char d \<noteq> CHR ''+''"
  proof
    assume "digit_char d = CHR ''+''"
    then have "(of_char (digit_char d) :: nat) = of_char CHR ''+''" by simp
    with oc show False by simp
  qed
qed

lemma decimal_nat_digits: "c \<in> set (decimal_nat n) \<Longrightarrow> c \<in> digit_char ` {..<10}"
proof (induction n arbitrary: c rule: decimal_nat.induct)
  case (1 n)
  show ?case
  proof (cases "n < 10")
    case True
    with "1.prems" show ?thesis by (simp add: decimal_nat.simps [of n])
  next
    case False
    with "1.prems" have "c \<in> set (decimal_nat (n div 10)) \<or> c = digit_char (n mod 10)"
      by (auto simp: decimal_nat.simps [of n])
    then show ?thesis
    proof
      assume "c \<in> set (decimal_nat (n div 10))"
      with False "1.IH" show ?thesis by blast
    next
      assume "c = digit_char (n mod 10)"
      moreover have "n mod 10 < 10" by simp
      ultimately show ?thesis by blast
    qed
  qed
qed

lemma decimal_nat_nonempty: "decimal_nat n \<noteq> []"
  by (subst decimal_nat.simps) simp

lemma digits_value_snoc: "digits_value (ds @ [c]) = 10 * digits_value ds + digit_value c"
  by (simp add: digits_value_def)

lemma digits_value_decimal_nat: "digits_value (decimal_nat n) = n"
proof (induction n rule: decimal_nat.induct)
  case (1 n)
  show ?case
  proof (cases "n < 10")
    case True
    then show ?thesis
      by (simp add: decimal_nat.simps [of n] digits_value_def digit_char_props)
  next
    case False
    with "1.IH" have "digits_value (decimal_nat (n div 10)) = n div 10" by simp
    with False show ?thesis
      by (simp add: decimal_nat.simps [of n] digits_value_snoc digit_char_props)
  qed
qed

lemma takeWhile_decimal_nat: "takeWhile is_digit (decimal_nat n @ rest) = decimal_nat n @ takeWhile is_digit rest"
proof -
  have "\<forall>c \<in> set (decimal_nat n). is_digit c"
    using decimal_nat_digits digit_char_props(1) by fastforce
  then show ?thesis by (simp add: takeWhile_append2)
qed

lemma hd_decimal_nat: "hd (decimal_nat n) \<in> digit_char ` {..<10}"
  using decimal_nat_digits [of "hd (decimal_nat n)" n] decimal_nat_nonempty [of n] by simp

lemma takeWhile_decimal_nat_all: "takeWhile is_digit (decimal_nat m) = decimal_nat m"
  using takeWhile_decimal_nat [of m "[]"] by simp

lemma parseInt_minus_decimal_nat: "parseInt (CHR ''-'' # decimal_nat m) = Finite (- int m)"
proof -
  have nws: "\<not> StrWhiteSpaceChar CHR ''-''" by (simp add: StrWhiteSpaceChar_def)
  show ?thesis
    by (simp add: parseInt_def nws Let_def takeWhile_decimal_nat_all decimal_nat_nonempty
        digits_value_decimal_nat)
qed

lemma parseInt_decimal_nat: "parseInt (decimal_nat m) = Finite (int m)"
proof -
  obtain d where d: "d < 10" "hd (decimal_nat m) = digit_char d"
    using hd_decimal_nat [of m] by auto
  obtain x xs where xs: "decimal_nat m = x # xs"
    using decimal_nat_nonempty [of m] by (cases "decimal_nat m") auto
  with d have x: "x = digit_char d" by simp
  have dw: "dropWhile StrWhiteSpaceChar (decimal_nat m) = decimal_nat m"
    using xs x d(1) by (simp add: digit_char_props)
  have hd_plus: "hd (decimal_nat m) \<noteq> CHR ''+''" and hd_minus: "hd (decimal_nat m) \<noteq> CHR ''-''"
    using d by (simp_all add: digit_char_props)
  show ?thesis
    by (simp add: parseInt_def dw hd_plus hd_minus Let_def takeWhile_decimal_nat_all
        decimal_nat_nonempty digits_value_decimal_nat)
qed

lemma NaN_or_Finite:
  "(if c then NaN else Finite t) = NaN \<or> (\<exists>n. (if c then NaN else Finite t) = Finite n)"
  by simp

lemma parseInt_cases:
  obtains (number) n where "parseInt s = Finite n" | (nan) "parseInt s = NaN"
proof -
  have "parseInt s = NaN \<or> (\<exists>n. parseInt s = Finite n)"
    unfolding parseInt_def Let_def by (rule NaN_or_Finite)
  then show ?thesis using number nan by blast
qed

lemma parseInt_decimal: "parseInt (decimal n) = Finite n"
  by (simp add: decimal_def parseInt_minus_decimal_nat parseInt_decimal_nat)

section \<open>Facts about listen, the normalisation and startEngine\<close>

lemma pick_server_count: "snd (pick_server options) = sources options"
  by (simp add: pick_server_def sources_def split: option.splits)

lemma pick_server_one: "sources options = 1 \<Longrightarrow> \<exists>srv. pick_server options = (Some srv, 1)"
  by (simp add: pick_server_def sources_def split: option.splits if_splits)

lemma listen_no_target:
  "port options = None \<Longrightarrow> pipePath options = None \<Longrightarrow>
   listen options listenCallback w = (Throws (Error no_port_message), w)"
  by (simp add: listen.simps)

lemma listen_no_app:
  "sources options = 0 \<Longrightarrow> \<not> (port options = None \<and> pipePath options = None) \<Longrightarrow>
   listen options listenCallback w = (Throws (Error no_app_message), w)"
  using pick_server_count [of options]
  by (cases "pick_server options") (auto simp: listen.simps)

lemma listen_many_apps:
  "sources options > 1 \<Longrightarrow> \<not> (port options = None \<and> pipePath options = None) \<Longrightarrow>
   listen options listenCallback w = (Throws (Error many_apps_message), w)"
  using pick_server_count [of options]
  by (cases "pick_server options") (auto simp: listen.simps)

lemma listen_one_app:
  "pick_server options = (Some srv, 1) \<Longrightarrow> \<not> (port options = None \<and> pipePath options = None) \<Longrightarrow>
   listen options listenCallback w =
     server_listen srv (inner_listen_options options) (EngineListening options listenCallback)
       (w\<lparr>engine_httpServer := Some srv\<rparr>)"
  by (auto simp: listen.simps)

lemma server_listen_native:
  "srv \<noteq> WebAppServer \<or> webApp_httpServer_listen w = OriginalListen \<Longrightarrow>
   server_listen srv listenOptions cb w = native_listen srv listenOptions cb w"
  by (auto simp: server_listen.simps)

lemma listen_native:
  assumes "sources options = 1" and "\<not> (port options = None \<and> pipePath options = None)"
    and "webApp_httpServer_listen w = OriginalListen"
  shows "\<exists>srv. listen options listenCallback w =
           (Returns (), w\<lparr>engine_httpServer := Some srv,
              trace := trace w @ [ServerListen srv (inner_listen_options options)
                                    (EngineListening options listenCallback)]\<rparr>)"
proof -
  from assms(1) obtain srv where srv: "pick_server options = (Some srv, 1)"
    using pick_server_one by blast
  have "listen options listenCallback w =
      native_listen srv (inner_listen_options options) (EngineListening options listenCallback)
        (w\<lparr>engine_httpServer := Some srv\<rparr>)"
    using assms(2,3) by (simp add: listen_one_app [OF srv] server_listen_native)
  then show ?thesis by (auto simp: native_listen_def)
qed

lemma normalize_number:
  "port options = Some (NumberPort x) \<Longrightarrow> normalize_options options = (only_one options, options)"
  by (simp add: normalize_options_def)

lemma normalize_pipe:
  "port options = None \<Longrightarrow> pipePath options = Some p \<Longrightarrow> normalize_options options = (Returns (), options)"
  by (simp add: normalize_options_def only_one_def)

lemma normalize_string_number:
  "port options = Some (StringPort s) \<Longrightarrow> parseInt s = Finite n \<Longrightarrow>
   normalize_options options =
     (only_one (options\<lparr>port := Some (NumberPort (Finite n))\<rparr>),
      options\<lparr>port := Some (NumberPort (Finite n))\<rparr>)"
  by (simp add: normalize_options_def isNaN_def Let_def)

lemma normalize_string_pipe:
  "port options = Some (StringPort s) \<Longrightarrow> parseInt s = NaN \<Longrightarrow>
   startsWith s (winPipePrefix @ [backslash]) \<Longrightarrow>
   normalize_options options = (Returns (), options\<lparr>pipePath := Some s, port := None\<rparr>)"
  by (simp add: normalize_options_def isNaN_def only_one_def Let_def)

lemma normalize_string_bad:
  "port options = Some (StringPort s) \<Longrightarrow> parseInt s = NaN \<Longrightarrow>
   \<not> startsWith s (winPipePrefix @ [backslash]) \<Longrightarrow>
   normalize_options options = (Throws (Error (port_message s)), options\<lparr>port := Some (NumberPort NaN)\<rparr>)"
  by (simp add: normalize_options_def isNaN_def Let_def)

lemma startEngine_throws:
  "normalize_options options = (Throws e, options') \<Longrightarrow>
   startEngine innerAddress options start w = (Rejected e, options', w)"
  by (simp add: startEngine_def)

lemma startEngine_returns:
  "normalize_options options = (Returns (), options') \<Longrightarrow>
   startEngine innerAddress options start w =
     (case start of
        Resolves a \<Rightarrow>
          (Fulfilled (), options',
           w\<lparr>trace := trace w @ [LauncherStart (make_launcherOptions (launcherOptions options')
                                      (make_defaults innerAddress options'))],
             engineListeningAddress := Some a\<rparr>)
      | Rejects e \<Rightarrow>
          (Rejected e, options',
           w\<lparr>trace := trace w @ [LauncherStart (make_launcherOptions (launcherOptions options')
                                      (make_defaults innerAddress options'))]\<rparr>)
      | NeverSettles \<Rightarrow>
          (Unsettled, options',
           w\<lparr>trace := trace w @ [LauncherStart (make_launcherOptions (launcherOptions options')
                                      (make_defaults innerAddress options'))]\<rparr>))"
  by (simp add: startEngine_def Let_def split: outcome.splits)

lemma invoke_throws:
  "normalize_options options = (Throws e, options') \<Longrightarrow>
   invoke (EngineListening options listenCallback) innerAddress start w =
     w\<lparr>nextTick := nextTick w @ [EmitError e]\<rparr>"
  by (simp add: invoke.simps startEngine_throws)

lemma normalize_cases:
  obtains (throws) e options' where "normalize_options options = (Throws e, options')"
  | (returns) options' where "normalize_options options = (Returns (), options')"
proof (cases "normalize_options options")
  case (Pair c options')
  then show ?thesis using throws returns by (cases c) auto
qed


lemma normalize_both_numeric:
  assumes "numeric_port p"
  shows "\<exists>options'. normalize_options (options\<lparr>port := Some p, pipePath := Some q\<rparr>)
           = (Throws (Error only_one_message), options')"
proof (cases p)
  case (NumberPort x)
  then show ?thesis
    by (simp add: normalize_number [of _ x] only_one_def only_one_message_def)
next
  case (StringPort s)
  with assms obtain n where "parseInt s = Finite n"
    by (cases s rule: parseInt_cases) (auto simp: numeric_port_def)
  with StringPort show ?thesis
    by (simp add: normalize_string_number [of _ s n] only_one_def only_one_message_def)
qed


lemma normalize_frame: "\<exists>p q. snd (normalize_options options) = options\<lparr>port := p, pipePath := q\<rparr>"
proof (cases "port options")
  case None
  have "options = options\<lparr>port := port options, pipePath := pipePath options\<rparr>" by simp
  moreover from None have "snd (normalize_options options) = options"
    by (simp add: normalize_options_def)
  ultimately show ?thesis by metis
next
  case (Some pv)
  show ?thesis
  proof (cases pv)
    case (NumberPort x)
    have "options = options\<lparr>port := port options, pipePath := pipePath options\<rparr>" by simp
    moreover from Some NumberPort have "snd (normalize_options options) = options"
      by (simp add: normalize_number)
    ultimately show ?thesis by metis
  next
    case (StringPort s)
    show ?thesis
    proof (cases s rule: parseInt_cases)
      case (number n)
      have "options\<lparr>port := Some (NumberPort (Finite n))\<rparr>
            = options\<lparr>port := Some (NumberPort (Finite n)), pipePath := pipePath options\<rparr>" by simp
      moreover from Some StringPort number
      have "snd (normalize_options options) = options\<lparr>port := Some (NumberPort (Finite n))\<rparr>"
        by (simp add: normalize_string_number)
      ultimately show ?thesis by metis
    next
      case nan
      show ?thesis
      proof (cases "startsWith s (winPipePrefix @ [backslash])")
        case True
        with Some StringPort nan
        have "snd (normalize_options options) = options\<lparr>port := None, pipePath := Some s\<rparr>"
          by (simp add: normalize_string_pipe)
        then show ?thesis by metis
      next
        case False
        have "options\<lparr>port := Some (NumberPort NaN)\<rparr>
              = options\<lparr>port := Some (NumberPort NaN), pipePath := pipePath options\<rparr>" by simp
        moreover from Some StringPort nan False
        have "snd (normalize_options options) = options\<lparr>port := Some (NumberPort NaN)\<rparr>"
          by (simp add: normalize_string_bad)
        ultimately show ?thesis by metis
      qed
    qed
  qed
qed

lemma normalize_returns_target:
  assumes "normalize_options options = (Returns (), options')"
  shows "port options' = None \<or> pipePath options' = None"
    and "port options' \<noteq> Some (StringPort s)"
    and "host options' = host options"
proof -
  from normalize_frame [of options] assms obtain p q where
    o: "options' = options\<lparr>port := p, pipePath := q\<rparr>" by auto
  then show "host options' = host options" by simp
  show "port options' = None \<or> pipePath options' = None"
    using assms
    by (auto simp: normalize_options_def only_one_def Let_def isNaN_def
        split: if_splits option.splits port_value.splits)
  show "port options' \<noteq> Some (StringPort s)"
    using assms
    by (auto simp: normalize_options_def only_one_def Let_def isNaN_def
        split: if_splits option.splits port_value.splits)
qed



lemma invoke_returns:
  assumes "normalize_options options = (Returns (), options')"
  shows "invoke (EngineListening options listenCallback) innerAddress start w =
     (case start of
        Resolves a \<Rightarrow>
          (case listenCallback of
             None \<Rightarrow>
               w\<lparr>trace := trace w @ [LauncherStart (make_launcherOptions (launcherOptions options')
                                          (make_defaults innerAddress options'))],
                 engineListeningAddress := Some a\<rparr>
           | Some cb \<Rightarrow>
               w\<lparr>trace := trace w @ [LauncherStart (make_launcherOptions (launcherOptions options')
                                          (make_defaults innerAddress options'))],
                 engineListeningAddress := Some a,
                 nextTick := nextTick w @ [Call cb]\<rparr>)
      | Rejects e \<Rightarrow>
          w\<lparr>trace := trace w @ [LauncherStart (make_launcherOptions (launcherOptions options')
                                     (make_defaults innerAddress options'))],
            nextTick := nextTick w @ [EmitError e]\<rparr>
      | NeverSettles \<Rightarrow>
          w\<lparr>trace := trace w @ [LauncherStart (make_launcherOptions (launcherOptions options')
                                     (make_defaults innerAddress options'))]\<rparr>)"
  by (simp add: invoke.simps startEngine_returns [OF assms] split: outcome.splits option.splits)

lemma startEngine_fulfilled:
  assumes "fst (startEngine innerAddress options start w) = Fulfilled ()"
  shows "\<exists>options'. normalize_options options = (Returns (), options')"
proof (cases options rule: normalize_cases)
  case (throws e options')
  with assms show ?thesis by (simp add: startEngine_throws)
next
  case (returns options')
  then show ?thesis by blast
qed

lemma live_world_fields:
  "engine_httpServer live_world = Some (Server 1)"
  "engineListeningAddress live_world = Some proxy_address"
  "nextTick live_world = []"
proof -
  have l: "listen example_options (Some (UserCallback 7)) new_world =
      (Returns (), new_world\<lparr>engine_httpServer := Some (Server 1),
         trace := [ServerListen (Server 1) (inner_listen_options example_options)
                     (EngineListening example_options (Some (UserCallback 7)))]\<rparr>)"
    by (simp add: listen.simps server_listen.simps native_listen_def pick_server_def
        example_options_def new_world_def)
  have n: "normalize_options example_options = (Returns (), example_options)"
    by (simp add: normalize_options_def only_one_def example_options_def)
  show "engine_httpServer live_world = Some (Server 1)"
    unfolding live_world_def l
    by (simp add: invoke_returns [OF n] invoke.simps(1) run_tick_def new_world_def)
  show "engineListeningAddress live_world = Some proxy_address"
    unfolding live_world_def l
    by (simp add: invoke_returns [OF n] invoke.simps(1) run_tick_def new_world_def)
  show "nextTick live_world = []"
    unfolding live_world_def l
    by (simp add: invoke_returns [OF n] invoke.simps(1) run_tick_def new_world_def)
qed

section \<open>Properties of the engine\<close>

text \<open>
  C1, as the code has it. From a state in which \<^verbatim>\<open>this.httpServer\<close> holds a server, and
  when the launcher's stop resolves, \<^verbatim>\<open>stop\<close> resolves after these steps in this order:
  the launcher's stop, the close of the server, and \<^verbatim>\<open>this.httpServer\<close> set to null.
  Nothing else of the session is written: \<^verbatim>\<open>engineListeningAddress\<close> keeps the value it
  had. As long as the launcher's stop has not settled, the server is not closed.
\<close>

theorem stop_from_live:
  assumes "engine_httpServer w = Some srv"
  shows "stop (Resolves ()) w =
           (Fulfilled (), w\<lparr>engine_httpServer := None, trace := trace w @ [LauncherStop, ServerClose srv]\<rparr>)
         \<and> engineListeningAddress (snd (stop (Resolves ()) w)) = engineListeningAddress w
         \<and> stop NeverSettles w = (Unsettled, w\<lparr>trace := trace w @ [LauncherStop]\<rparr>)"
  using assms by (simp add: stop_def Let_def)

theorem stop_from_live_witness:
  "engine_httpServer live_world = Some (Server 1)
   \<and> stop (Resolves ()) live_world =
       (Fulfilled (), live_world\<lparr>engine_httpServer := None,
          trace := trace live_world @ [LauncherStop, ServerClose (Server 1)]\<rparr>)"
  using stop_from_live [OF live_world_fields(1)] live_world_fields(1) by simp

theorem stop_keeps_address_counterexample:
  "engine_httpServer live_world = Some (Server 1)
   \<and> engineListeningAddress live_world = Some proxy_address
   \<and> fst (stop (Resolves ()) live_world) = Fulfilled ()
   \<and> engine_httpServer (snd (stop (Resolves ()) live_world)) = None
   \<and> engineListeningAddress (snd (stop (Resolves ()) live_world)) = Some proxy_address"
  by (simp add: stop_def Let_def live_world_fields)

text \<open>
  C2, as the code has it. With neither \<^verbatim>\<open>port\<close> nor \<^verbatim>\<open>pipePath\<close>, \<^verbatim>\<open>listen\<close> throws
  inside the call and the state is as it was. With both, \<^verbatim>\<open>listen\<close> makes no check of its
  own: given exactly one server source (and a server whose listen method is its own) it
  returns normally, having stored the server and called its listen. The conflict is found
  by \<^verbatim>\<open>startEngine\<close> once the server is listening, when the port is a number or a string
  with a number in it: the state is otherwise unchanged and the error goes to
  \<^verbatim>\<open>process.nextTick\<close>, to be emitted as an error event.
\<close>

theorem listen_neither_or_both:
  "listen (options\<lparr>port := None, pipePath := None\<rparr>) listenCallback w
     = (Throws (Error no_port_message), w)
   \<and> (sources options = 1 \<and> webApp_httpServer_listen w = OriginalListen \<longrightarrow>
        (\<exists>srv. listen (options\<lparr>port := Some p, pipePath := Some q\<rparr>) listenCallback w =
           (Returns (), w\<lparr>engine_httpServer := Some srv,
              trace := trace w @ [ServerListen srv (inner_listen_options options)
                 (EngineListening (options\<lparr>port := Some p, pipePath := Some q\<rparr>) listenCallback)]\<rparr>)))
   \<and> (numeric_port p \<longrightarrow>
        invoke (EngineListening (options\<lparr>port := Some p, pipePath := Some q\<rparr>) listenCallback)
          innerAddress start w
        = w\<lparr>nextTick := nextTick w @ [EmitError (Error only_one_message)]\<rparr>)"
proof (intro conjI impI)
  show "listen (options\<lparr>port := None, pipePath := None\<rparr>) listenCallback w
     = (Throws (Error no_port_message), w)"
    by (simp add: listen_no_target)
next
  assume a: "sources options = 1 \<and> webApp_httpServer_listen w = OriginalListen"
  have s: "sources (options\<lparr>port := Some p, pipePath := Some q\<rparr>) = 1"
    using a by (simp add: sources_def)
  have i: "inner_listen_options (options\<lparr>port := Some p, pipePath := Some q\<rparr>) = inner_listen_options options"
    by (simp add: inner_listen_options_def)
  show "\<exists>srv. listen (options\<lparr>port := Some p, pipePath := Some q\<rparr>) listenCallback w =
           (Returns (), w\<lparr>engine_httpServer := Some srv,
              trace := trace w @ [ServerListen srv (inner_listen_options options)
                 (EngineListening (options\<lparr>port := Some p, pipePath := Some q\<rparr>) listenCallback)]\<rparr>)"
    using listen_native [OF s, of w listenCallback] a by (simp add: i)
next
  assume "numeric_port p"
  then obtain options' where
    "normalize_options (options\<lparr>port := Some p, pipePath := Some q\<rparr>) = (Throws (Error only_one_message), options')"
    using normalize_both_numeric by blast
  then show "invoke (EngineListening (options\<lparr>port := Some p, pipePath := Some q\<rparr>) listenCallback)
          innerAddress start w
        = w\<lparr>nextTick := nextTick w @ [EmitError (Error only_one_message)]\<rparr>"
    by (rule invoke_throws)
qed

theorem listen_neither_or_both_witness:
  "sources example_options = 1 \<and> webApp_httpServer_listen new_world = OriginalListen
   \<and> numeric_port (NumberPort (Finite 3000))
   \<and> listen (example_options\<lparr>port := None, pipePath := None\<rparr>) None new_world
       = (Throws (Error no_port_message), new_world)
   \<and> fst (listen (example_options\<lparr>port := Some (NumberPort (Finite 3000)), pipePath := Some ''p''\<rparr>) None new_world)
       = Returns ()
   \<and> nextTick (invoke (EngineListening (example_options\<lparr>port := Some (NumberPort (Finite 3000)), pipePath := Some ''p''\<rparr>) None)
          example_address NeverSettles new_world) = [EmitError (Error only_one_message)]"
proof -
  have h: "sources example_options = 1" "webApp_httpServer_listen new_world = OriginalListen"
    "numeric_port (NumberPort (Finite 3000))"
    by (simp_all add: sources_def example_options_def new_world_def numeric_port_def)
  from listen_neither_or_both [where options = example_options and listenCallback = None
      and w = new_world and p = "NumberPort (Finite 3000)" and q = "''p''"
      and innerAddress = example_address and start = NeverSettles] h
  show ?thesis by (auto simp: new_world_def)
qed

theorem listen_both_counterexample:
  "port (example_options\<lparr>pipePath := Some ''p''\<rparr>) \<noteq> None
   \<and> pipePath (example_options\<lparr>pipePath := Some ''p''\<rparr>) \<noteq> None
   \<and> listen (example_options\<lparr>pipePath := Some ''p''\<rparr>) None new_world =
       (Returns (),
        new_world\<lparr>engine_httpServer := Some (Server 1),
          trace := [ServerListen (Server 1)
            \<lparr> net_path = None, net_port = Some (Finite 0), net_host = Some ''127.0.0.1'', net_pipePath = None \<rparr>
            (EngineListening (example_options\<lparr>pipePath := Some ''p''\<rparr>) None)]\<rparr>)"
  by (simp add: listen.simps server_listen.simps native_listen_def pick_server_def
      example_options_def new_world_def inner_listen_options_def)

text \<open>
  C3, as the code has it. Let \<open>s\<close> be a string port in which \<^verbatim>\<open>parseInt\<close> finds no
  number. When \<open>s\<close> does not begin with the pipe prefix, \<^verbatim>\<open>listen\<close> itself does not throw:
  given one server source (and a server whose listen method is its own) it returns
  normally, having stored the server and called its listen on port 0 of the inner host
  with the arrow function over these very options, and nothing else has happened. The
  error, whose message holds \<open>s\<close>, is raised by \<^verbatim>\<open>startEngine\<close> once the server is
  listening and handed to \<^verbatim>\<open>process.nextTick\<close> to be emitted as an error event, the
  state being otherwise unchanged. When \<open>s\<close> begins with the prefix, the normalisation
  succeeds with \<^verbatim>\<open>pipePath\<close> set to \<open>s\<close> and \<^verbatim>\<open>port\<close> unset.
\<close>

theorem string_port_without_number:
  assumes "parseInt s = NaN"
  shows "(\<not> startsWith s (winPipePrefix @ [backslash]) \<longrightarrow>
            (sources options = 1 \<and> webApp_httpServer_listen w = OriginalListen \<longrightarrow>
               (\<exists>srv. listen (options\<lparr>port := Some (StringPort s)\<rparr>) listenCallback w =
                  (Returns (), w\<lparr>engine_httpServer := Some srv,
                     trace := trace w @ [ServerListen srv (inner_listen_options options)
                        (EngineListening (options\<lparr>port := Some (StringPort s)\<rparr>) listenCallback)]\<rparr>)))
            \<and> invoke (EngineListening (options\<lparr>port := Some (StringPort s)\<rparr>) listenCallback)
                 innerAddress start w
               = w\<lparr>nextTick := nextTick w @ [EmitError (Error (port_message s))]\<rparr>
            \<and> sublist s (port_message s))
       \<and> (startsWith s (winPipePrefix @ [backslash]) \<longrightarrow>
            normalize_options (options\<lparr>port := Some (StringPort s)\<rparr>)
              = (Returns (), options\<lparr>port := None, pipePath := Some s\<rparr>))"
proof (intro conjI impI)
  assume a: "sources options = 1 \<and> webApp_httpServer_listen w = OriginalListen"
  have one: "sources (options\<lparr>port := Some (StringPort s)\<rparr>) = 1"
    using a by (simp add: sources_def)
  have i: "inner_listen_options (options\<lparr>port := Some (StringPort s)\<rparr>) = inner_listen_options options"
    by (simp add: inner_listen_options_def)
  show "\<exists>srv. listen (options\<lparr>port := Some (StringPort s)\<rparr>) listenCallback w =
                  (Returns (), w\<lparr>engine_httpServer := Some srv,
                     trace := trace w @ [ServerListen srv (inner_listen_options options)
                        (EngineListening (options\<lparr>port := Some (StringPort s)\<rparr>) listenCallback)]\<rparr>)"
    using listen_native [OF one, of w listenCallback] a by (simp add: i)
next
  assume "\<not> startsWith s (winPipePrefix @ [backslash])"
  with assms have "normalize_options (options\<lparr>port := Some (StringPort s)\<rparr>)
      = (Throws (Error (port_message s)), options\<lparr>port := Some (NumberPort NaN)\<rparr>)"
    by (simp add: normalize_string_bad [of _ s])
  then show "invoke (EngineListening (options\<lparr>port := Some (StringPort s)\<rparr>) listenCallback)
                 innerAddress start w
               = w\<lparr>nextTick := nextTick w @ [EmitError (Error (port_message s))]\<rparr>"
    by (rule invoke_throws)
next
  have "port_message s = (''port must be an integer or a Windows named pipe, '' @ ''not '' @ [quote]) @ s @ [quote]"
    by (simp add: port_message_def)
  then show "sublist s (port_message s)"
    unfolding sublist_def by blast
next
  assume "startsWith s (winPipePrefix @ [backslash])"
  with assms show "normalize_options (options\<lparr>port := Some (StringPort s)\<rparr>)
              = (Returns (), options\<lparr>port := None, pipePath := Some s\<rparr>)"
    by (simp add: normalize_string_pipe [of _ s])
qed

theorem string_port_without_number_witness:
  "parseInt ''abc'' = NaN \<and> \<not> startsWith ''abc'' (winPipePrefix @ [backslash])
   \<and> sources example_options = 1 \<and> webApp_httpServer_listen new_world = OriginalListen
   \<and> (\<exists>srv. listen (example_options\<lparr>port := Some (StringPort ''abc'')\<rparr>) None new_world =
         (Returns (), new_world\<lparr>engine_httpServer := Some srv,
            trace := trace new_world @ [ServerListen srv (inner_listen_options example_options)
               (EngineListening (example_options\<lparr>port := Some (StringPort ''abc'')\<rparr>) None)]\<rparr>))
   \<and> invoke (EngineListening (example_options\<lparr>port := Some (StringPort ''abc'')\<rparr>) None)
        example_address NeverSettles new_world
       = new_world\<lparr>nextTick := nextTick new_world @ [EmitError (Error (port_message ''abc''))]\<rparr>
   \<and> parseInt example_pipe = NaN \<and> startsWith example_pipe (winPipePrefix @ [backslash])
   \<and> normalize_options (example_options\<lparr>port := Some (StringPort example_pipe)\<rparr>)
        = (Returns (), example_options\<lparr>port := None, pipePath := Some example_pipe\<rparr>)"
proof -
  have a: "parseInt ''abc'' = NaN"
    by (simp add: parseInt_def StrWhiteSpaceChar_def is_digit_def)
  have b: "\<not> startsWith ''abc'' (winPipePrefix @ [backslash])"
    by (simp add: startsWith_def winPipePrefix_def backslash_def)
  have c: "sources example_options = 1" "webApp_httpServer_listen new_world = OriginalListen"
    by (simp_all add: sources_def example_options_def new_world_def)
  have d: "parseInt example_pipe = NaN"
    by (simp add: parseInt_def example_pipe_def winPipePrefix_def backslash_def
        StrWhiteSpaceChar_def is_digit_def)
  have e: "startsWith example_pipe (winPipePrefix @ [backslash])"
    by (simp add: startsWith_def example_pipe_def)
  note T = string_port_without_number [OF a, where options = example_options and w = new_world
      and listenCallback = None and innerAddress = example_address and start = NeverSettles]
  note U = string_port_without_number [OF d, where options = example_options]
  from T b c have bound:
    "\<exists>srv. listen (example_options\<lparr>port := Some (StringPort ''abc'')\<rparr>) None new_world =
         (Returns (), new_world\<lparr>engine_httpServer := Some srv,
            trace := trace new_world @ [ServerListen srv (inner_listen_options example_options)
               (EngineListening (example_options\<lparr>port := Some (StringPort ''abc'')\<rparr>) None)]\<rparr>)"
    by blast
  from T b have emitted:
    "invoke (EngineListening (example_options\<lparr>port := Some (StringPort ''abc'')\<rparr>) None)
        example_address NeverSettles new_world
       = new_world\<lparr>nextTick := nextTick new_world @ [EmitError (Error (port_message ''abc''))]\<rparr>"
    by blast
  from U e have moved:
    "normalize_options (example_options\<lparr>port := Some (StringPort example_pipe)\<rparr>)
        = (Returns (), example_options\<lparr>port := None, pipePath := Some example_pipe\<rparr>)"
    by blast
  from a b c d e bound emitted moved show ?thesis by blast
qed

theorem string_port_counterexample:
  "parseInt ''abc'' = NaN \<and> \<not> startsWith ''abc'' (winPipePrefix @ [backslash])
   \<and> listen (example_options\<lparr>port := Some (StringPort ''abc'')\<rparr>) None new_world =
       (Returns (),
        new_world\<lparr>engine_httpServer := Some (Server 1),
          trace := [ServerListen (Server 1)
            \<lparr> net_path = None, net_port = Some (Finite 0), net_host = Some ''127.0.0.1'', net_pipePath = None \<rparr>
            (EngineListening (example_options\<lparr>port := Some (StringPort ''abc'')\<rparr>) None)]\<rparr>)"
  by (simp add: listen.simps server_listen.simps native_listen_def pick_server_def
      example_options_def new_world_def inner_listen_options_def parseInt_def
      StrWhiteSpaceChar_def is_digit_def startsWith_def winPipePrefix_def backslash_def)

text \<open>
  C4, as the code has it. In the \<^verbatim>\<open>defaults\<close> object that \<^verbatim>\<open>startEngine\<close> builds after a
  normalisation that did not throw, \<^verbatim>\<open>frontendPort\<close> and \<^verbatim>\<open>frontendPipePath\<close> are never both set;
  \<^verbatim>\<open>frontendPort\<close> is set exactly when the normalised port is a number other than 0 and
  NaN, be it an integer, a fraction or an infinity (and is then that port);
  \<^verbatim>\<open>frontendPipePath\<close> is set exactly when the normalised pipe path is a non-empty
  string (and is then that path); \<^verbatim>\<open>frontendHost\<close> is the caller's \<^verbatim>\<open>host\<close>, whichever
  target is used.
\<close>

theorem payload_frontend_fields:
  assumes "normalize_options options = (Returns (), options')"
  shows "\<not> (frontendPort (make_defaults innerAddress options') \<noteq> None
            \<and> frontendPipePath (make_defaults innerAddress options') \<noteq> None)
       \<and> (frontendPort (make_defaults innerAddress options') \<noteq> None
            \<longleftrightarrow> (\<exists>x. x \<noteq> Finite 0 \<and> x \<noteq> NaN \<and> port options' = Some (NumberPort x)))
       \<and> (frontendPort (make_defaults innerAddress options') \<noteq> None
            \<longrightarrow> frontendPort (make_defaults innerAddress options') = port options')
       \<and> (frontendPipePath (make_defaults innerAddress options') \<noteq> None
            \<longleftrightarrow> (\<exists>p. p \<noteq> [] \<and> pipePath options' = Some p))
       \<and> (frontendPipePath (make_defaults innerAddress options') \<noteq> None
            \<longrightarrow> frontendPipePath (make_defaults innerAddress options') = pipePath options')
       \<and> frontendHost (make_defaults innerAddress options') = host options"
proof -
  note t = normalize_returns_target [OF assms]
  have one: "port options' = None \<or> pipePath options' = None" by (rule t(1))
  have nostr: "\<And>s. port options' \<noteq> Some (StringPort s)" by (rule t(2))
  have fp: "frontendPort (make_defaults innerAddress options') = port_or_undefined (port options')"
    and fq: "frontendPipePath (make_defaults innerAddress options') = string_or_undefined (pipePath options')"
    and fh: "frontendHost (make_defaults innerAddress options') = host options'"
    by (simp_all add: make_defaults_def)
  have p1: "port_or_undefined (port options') \<noteq> None
      \<longleftrightarrow> (\<exists>x. x \<noteq> Finite 0 \<and> x \<noteq> NaN \<and> port options' = Some (NumberPort x))"
    using nostr
    by (auto simp: port_or_undefined_def split: option.splits port_value.splits)
  have p2: "port_or_undefined (port options') \<noteq> None
      \<longrightarrow> port_or_undefined (port options') = port options'"
    by (auto simp: port_or_undefined_def split: option.splits port_value.splits if_splits)
  have q1: "string_or_undefined (pipePath options') \<noteq> None
      \<longleftrightarrow> (\<exists>p. p \<noteq> [] \<and> pipePath options' = Some p)"
    by (auto simp: string_or_undefined_def split: option.splits)
  have q2: "string_or_undefined (pipePath options') \<noteq> None
      \<longrightarrow> string_or_undefined (pipePath options') = pipePath options'"
    by (auto simp: string_or_undefined_def split: option.splits if_splits)
  have both: "\<not> (port_or_undefined (port options') \<noteq> None
      \<and> string_or_undefined (pipePath options') \<noteq> None)"
    using one p1 q1 by auto
  show ?thesis
    unfolding fp fq fh using both p1 p2 q1 q2 t(3) by blast
qed

theorem payload_frontend_fields_witness:
  "normalize_options (example_options\<lparr>host := Some ''0.0.0.0''\<rparr>)
     = (Returns (), example_options\<lparr>host := Some ''0.0.0.0''\<rparr>)
   \<and> frontendPort (make_defaults example_address (example_options\<lparr>host := Some ''0.0.0.0''\<rparr>))
       = Some (NumberPort (Finite 3000))
   \<and> frontendPipePath (make_defaults example_address (example_options\<lparr>host := Some ''0.0.0.0''\<rparr>)) = None
   \<and> frontendHost (make_defaults example_address (example_options\<lparr>host := Some ''0.0.0.0''\<rparr>))
       = Some ''0.0.0.0''
   \<and> normalize_options (example_options\<lparr>port := Some (StringPort example_pipe)\<rparr>)
     = (Returns (), example_options\<lparr>port := None, pipePath := Some example_pipe\<rparr>)
   \<and> frontendPort (make_defaults example_address
        (example_options\<lparr>port := None, pipePath := Some example_pipe\<rparr>)) = None
   \<and> frontendPipePath (make_defaults example_address
        (example_options\<lparr>port := None, pipePath := Some example_pipe\<rparr>)) = Some example_pipe
   \<and> normalize_options (example_options\<lparr>port := Some (NumberPort (NonInteger ''3000.5''))\<rparr>)
     = (Returns (), example_options\<lparr>port := Some (NumberPort (NonInteger ''3000.5''))\<rparr>)
   \<and> frontendPort (make_defaults example_address
        (example_options\<lparr>port := Some (NumberPort (NonInteger ''3000.5''))\<rparr>))
       = Some (NumberPort (NonInteger ''3000.5''))
   \<and> normalize_options (example_options\<lparr>port := Some (NumberPort Infinity)\<rparr>)
     = (Returns (), example_options\<lparr>port := Some (NumberPort Infinity)\<rparr>)
   \<and> frontendPort (make_defaults example_address
        (example_options\<lparr>port := Some (NumberPort Infinity)\<rparr>))
       = Some (NumberPort Infinity)"
proof -
  have n: "normalize_options (example_options\<lparr>host := Some ''0.0.0.0''\<rparr>)
     = (Returns (), example_options\<lparr>host := Some ''0.0.0.0''\<rparr>)"
    by (simp add: normalize_options_def only_one_def example_options_def)
  have p: "port (example_options\<lparr>host := Some ''0.0.0.0''\<rparr>) = Some (NumberPort (Finite 3000))"
    and h: "host (example_options\<lparr>host := Some ''0.0.0.0''\<rparr>) = Some ''0.0.0.0''"
    by (simp_all add: example_options_def)
  have d: "parseInt example_pipe = NaN"
    by (simp add: parseInt_def example_pipe_def winPipePrefix_def backslash_def
        StrWhiteSpaceChar_def is_digit_def)
  have e: "startsWith example_pipe (winPipePrefix @ [backslash])"
    by (simp add: startsWith_def example_pipe_def)
  have m: "normalize_options (example_options\<lparr>port := Some (StringPort example_pipe)\<rparr>)
     = (Returns (), example_options\<lparr>port := None, pipePath := Some example_pipe\<rparr>)"
    using d e by (simp add: normalize_string_pipe [of _ example_pipe])
  have q: "pipePath (example_options\<lparr>port := None, pipePath := Some example_pipe\<rparr>) = Some example_pipe"
    and r: "example_pipe \<noteq> []"
    by (simp_all add: example_pipe_def)
  have f: "normalize_options (example_options\<lparr>port := Some (NumberPort (NonInteger ''3000.5''))\<rparr>)
     = (Returns (), example_options\<lparr>port := Some (NumberPort (NonInteger ''3000.5''))\<rparr>)"
    by (simp add: normalize_options_def only_one_def example_options_def)
  have i: "normalize_options (example_options\<lparr>port := Some (NumberPort Infinity)\<rparr>)
     = (Returns (), example_options\<lparr>port := Some (NumberPort Infinity)\<rparr>)"
    by (simp add: normalize_options_def only_one_def example_options_def)
  have first: "frontendPort (make_defaults example_address (example_options\<lparr>host := Some ''0.0.0.0''\<rparr>))
       = Some (NumberPort (Finite 3000))
     \<and> frontendPipePath (make_defaults example_address (example_options\<lparr>host := Some ''0.0.0.0''\<rparr>)) = None
     \<and> frontendHost (make_defaults example_address (example_options\<lparr>host := Some ''0.0.0.0''\<rparr>))
       = Some ''0.0.0.0''"
    using payload_frontend_fields [OF n, of example_address] p h by auto
  have second: "frontendPort (make_defaults example_address
        (example_options\<lparr>port := None, pipePath := Some example_pipe\<rparr>)) = None
     \<and> frontendPipePath (make_defaults example_address
        (example_options\<lparr>port := None, pipePath := Some example_pipe\<rparr>)) = Some example_pipe"
    using payload_frontend_fields [OF m, of example_address] q r by auto
  have third: "frontendPort (make_defaults example_address
        (example_options\<lparr>port := Some (NumberPort (NonInteger ''3000.5''))\<rparr>))
       = Some (NumberPort (NonInteger ''3000.5''))"
    using payload_frontend_fields [OF f, of example_address] by auto
  have fourth: "frontendPort (make_defaults example_address
        (example_options\<lparr>port := Some (NumberPort Infinity)\<rparr>))
       = Some (NumberPort Infinity)"
    using payload_frontend_fields [OF i, of example_address] by auto
  from n m f i first second third fourth show ?thesis by simp
qed

theorem payload_port_zero_counterexample:
  "normalize_options (example_options\<lparr>port := Some (NumberPort (Finite 0)), host := Some ''0.0.0.0''\<rparr>)
     = (Returns (), example_options\<lparr>port := Some (NumberPort (Finite 0)), host := Some ''0.0.0.0''\<rparr>)
   \<and> frontendPort (make_defaults example_address
        (example_options\<lparr>port := Some (NumberPort (Finite 0)), host := Some ''0.0.0.0''\<rparr>)) = None
   \<and> frontendPipePath (make_defaults example_address
        (example_options\<lparr>port := Some (NumberPort (Finite 0)), host := Some ''0.0.0.0''\<rparr>)) = None
   \<and> normalize_options (example_options\<lparr>port := None, pipePath := Some example_pipe, host := Some ''0.0.0.0''\<rparr>)
     = (Returns (), example_options\<lparr>port := None, pipePath := Some example_pipe, host := Some ''0.0.0.0''\<rparr>)
   \<and> frontendPipePath (make_defaults example_address
        (example_options\<lparr>port := None, pipePath := Some example_pipe, host := Some ''0.0.0.0''\<rparr>))
       = Some example_pipe
   \<and> frontendHost (make_defaults example_address
        (example_options\<lparr>port := None, pipePath := Some example_pipe, host := Some ''0.0.0.0''\<rparr>))
       = Some ''0.0.0.0''"
  by (simp add: normalize_options_def only_one_def example_options_def make_defaults_def
      port_or_undefined_def string_or_undefined_def example_pipe_def)

text \<open>
  C5. Whatever else the options hold, when the number of server sources given
  (\<^verbatim>\<open>httpServer\<close>, \<^verbatim>\<open>expressApp\<close>, \<^verbatim>\<open>connectApp\<close>, \<^verbatim>\<open>koaApp\<close>, \<^verbatim>\<open>restifyServer\<close>) is
  zero, or two or more, \<^verbatim>\<open>listen\<close> throws an error inside the call and leaves the state as
  it was: no server's listen has been called (the events are the same) and
  \<^verbatim>\<open>this.httpServer\<close> is not assigned.
\<close>

theorem listen_app_count:
  assumes "sources options \<noteq> 1"
  shows "listen options listenCallback w =
           (Throws (Error (if port options = None \<and> pipePath options = None then no_port_message
                           else if sources options = 0 then no_app_message
                           else many_apps_message)), w)"
proof (cases "port options = None \<and> pipePath options = None")
  case True
  then show ?thesis by (simp add: listen_no_target)
next
  case False
  from assms have "sources options = 0 \<or> sources options > 1" by arith
  with False show ?thesis by (auto simp: listen_no_app listen_many_apps)
qed

theorem listen_app_count_witness:
  "sources (example_options\<lparr>httpServer := None\<rparr>) \<noteq> 1
   \<and> listen (example_options\<lparr>httpServer := None\<rparr>) None new_world
       = (Throws (Error no_app_message), new_world)
   \<and> sources (example_options\<lparr>koaApp := Some 2\<rparr>) \<noteq> 1
   \<and> listen (example_options\<lparr>koaApp := Some 2\<rparr>) None new_world
       = (Throws (Error many_apps_message), new_world)"
  using listen_app_count [of "example_options\<lparr>httpServer := None\<rparr>" None new_world]
    listen_app_count [of "example_options\<lparr>koaApp := Some 2\<rparr>" None new_world]
  by (simp add: sources_def example_options_def)

text \<open>
  C6. A port given as the decimal string of an integer \<open>n\<close> is treated as the integer
  \<open>n\<close>: the normalisation ends the same way with the same options object, and
  \<^verbatim>\<open>startEngine\<close> and the listening callback give the same result, the same state and
  the same events, so the launcher is started with the same payload.
\<close>

theorem numeric_string_port:
  "normalize_options (options\<lparr>port := Some (StringPort (decimal n))\<rparr>)
     = normalize_options (options\<lparr>port := Some (NumberPort (Finite n))\<rparr>)
   \<and> startEngine innerAddress (options\<lparr>port := Some (StringPort (decimal n))\<rparr>) start w
     = startEngine innerAddress (options\<lparr>port := Some (NumberPort (Finite n))\<rparr>) start w
   \<and> invoke (EngineListening (options'\<lparr>port := Some (StringPort (decimal n))\<rparr>) listenCallback)
       innerAddress start w
     = invoke (EngineListening (options'\<lparr>port := Some (NumberPort (Finite n))\<rparr>) listenCallback)
       innerAddress start w"
proof -
  have eq: "\<And>o'. normalize_options (o'\<lparr>port := Some (StringPort (decimal n))\<rparr>)
     = normalize_options (o'\<lparr>port := Some (NumberPort (Finite n))\<rparr>)"
    by (simp add: normalize_string_number [of _ "decimal n" n] parseInt_decimal
        normalize_number [of _ "Finite n"])
  have se: "\<And>o'. startEngine innerAddress (o'\<lparr>port := Some (StringPort (decimal n))\<rparr>) start w
     = startEngine innerAddress (o'\<lparr>port := Some (NumberPort (Finite n))\<rparr>) start w"
    by (simp add: startEngine_def eq)
  show ?thesis by (simp add: eq se invoke.simps)
qed

theorem numeric_string_port_witness:
  "decimal 8080 = ''8080''
   \<and> normalize_options (example_options\<lparr>port := Some (StringPort ''8080'')\<rparr>)
       = (Returns (), example_options\<lparr>port := Some (NumberPort (Finite 8080))\<rparr>)
   \<and> startEngine example_address (example_options\<lparr>port := Some (StringPort ''8080'')\<rparr>)
        (Resolves proxy_address) new_world
     = startEngine example_address (example_options\<lparr>port := Some (NumberPort (Finite 8080))\<rparr>)
        (Resolves proxy_address) new_world"
proof -
  have c: "digit_char 0 = CHR ''0''" "digit_char 8 = CHR ''8''"
    by (simp_all add: digit_char_eq)
  have d: "decimal 8080 = ''8080''"
    by (simp add: decimal_def decimal_nat.simps c)
  have n: "normalize_options (example_options\<lparr>port := Some (NumberPort (Finite 8080))\<rparr>)
       = (Returns (), example_options\<lparr>port := Some (NumberPort (Finite 8080))\<rparr>)"
    by (simp add: normalize_options_def only_one_def example_options_def)
  from numeric_string_port [where options = example_options and n = 8080
      and innerAddress = example_address and start = "Resolves proxy_address" and w = new_world]
    d n
  show ?thesis by simp
qed

text \<open>
  C7. In a start that succeeds (the normalisation does not throw and the proxy's start
  resolves with an address \<open>a\<close>), \<^verbatim>\<open>listen\<close> itself only stores the server and calls its
  listen with the arrow function that holds the callback (stated for one server source and
  a server whose listen method is its own). The turn in which the server is found listening stores
  \<open>a\<close> in \<^verbatim>\<open>engineListeningAddress\<close>, starts the launcher and does not call the
  callback: it only hands it to \<^verbatim>\<open>process.nextTick\<close>, once. The next tick calls it, once,
  with the address still stored, and leaves nothing queued, so no later tick calls it again.
\<close>

theorem callback_after_address:
  assumes "fst (startEngine innerAddress options (Resolves a) w) = Fulfilled ()"
  shows "(sources options = 1 \<and> webApp_httpServer_listen w = OriginalListen \<longrightarrow>
            (\<exists>srv. listen options (Some (UserCallback k)) w =
               (Returns (), w\<lparr>engine_httpServer := Some srv,
                  trace := trace w @ [ServerListen srv (inner_listen_options options)
                     (EngineListening options (Some (UserCallback k)))]\<rparr>)))
       \<and> (let w1 = invoke (EngineListening options (Some (UserCallback k))) innerAddress (Resolves a) w
          in engineListeningAddress w1 = Some a
             \<and> nextTick w1 = nextTick w @ [Call (UserCallback k)]
             \<and> (\<exists>l. trace w1 = trace w @ [LauncherStart l])
             \<and> (nextTick w = [] \<longrightarrow>
                  (let w2 = run_tick laterAddress laterStart w1
                   in trace w2 = trace w1 @ [CallbackInvoked k]
                      \<and> engineListeningAddress w2 = Some a
                      \<and> nextTick w2 = []
                      \<and> run_tick lastAddress lastStart w2 = w2)))"
proof -
  from startEngine_fulfilled [OF assms] obtain options' where
    n: "normalize_options options = (Returns (), options')" by blast
  then have t: "\<not> (port options = None \<and> pipePath options = None)"
    by (auto simp: normalize_options_def split: if_splits)
  have "\<exists>srv. listen options (Some (UserCallback k)) w =
               (Returns (), w\<lparr>engine_httpServer := Some srv,
                  trace := trace w @ [ServerListen srv (inner_listen_options options)
                     (EngineListening options (Some (UserCallback k)))]\<rparr>)"
    if "sources options = 1 \<and> webApp_httpServer_listen w = OriginalListen"
    using that listen_native [OF _ t, of w "Some (UserCallback k)"] by blast
  then show ?thesis
    by (simp add: invoke_returns [OF n] Let_def run_tick_def invoke.simps(1))
qed

theorem callback_after_address_witness:
  "fst (startEngine example_address example_options (Resolves proxy_address) new_world) = Fulfilled ()
   \<and> nextTick new_world = []
   \<and> sources example_options = 1 \<and> webApp_httpServer_listen new_world = OriginalListen
   \<and> fst (listen example_options (Some (UserCallback 7)) new_world) = Returns ()
   \<and> engineListeningAddress
       (invoke (EngineListening example_options (Some (UserCallback 7))) example_address
          (Resolves proxy_address) new_world) = Some proxy_address
   \<and> nextTick
       (invoke (EngineListening example_options (Some (UserCallback 7))) example_address
          (Resolves proxy_address) new_world) = [Call (UserCallback 7)]
   \<and> trace (run_tick example_address NeverSettles
       (invoke (EngineListening example_options (Some (UserCallback 7))) example_address
          (Resolves proxy_address) new_world))
     = trace (invoke (EngineListening example_options (Some (UserCallback 7))) example_address
          (Resolves proxy_address) new_world) @ [CallbackInvoked 7]"
proof -
  have n: "normalize_options example_options = (Returns (), example_options)"
    by (simp add: normalize_options_def only_one_def example_options_def)
  have f: "fst (startEngine example_address example_options (Resolves proxy_address) new_world) = Fulfilled ()"
    by (simp add: startEngine_returns [OF n])
  have q: "nextTick new_world = []" by (simp add: new_world_def)
  have s: "sources example_options = 1" "webApp_httpServer_listen new_world = OriginalListen"
    by (simp_all add: sources_def example_options_def new_world_def)
  note T = callback_after_address [OF f, where k = 7 and laterAddress = example_address
      and laterStart = NeverSettles and lastAddress = example_address and lastStart = NeverSettles]
  from T s have l: "fst (listen example_options (Some (UserCallback 7)) new_world) = Returns ()"
    by auto
  from T q have r: "engineListeningAddress
       (invoke (EngineListening example_options (Some (UserCallback 7))) example_address
          (Resolves proxy_address) new_world) = Some proxy_address
   \<and> nextTick
       (invoke (EngineListening example_options (Some (UserCallback 7))) example_address
          (Resolves proxy_address) new_world) = [Call (UserCallback 7)]
   \<and> trace (run_tick example_address NeverSettles
       (invoke (EngineListening example_options (Some (UserCallback 7))) example_address
          (Resolves proxy_address) new_world))
     = trace (invoke (EngineListening example_options (Some (UserCallback 7))) example_address
          (Resolves proxy_address) new_world) @ [CallbackInvoked 7]"
    by (simp add: Let_def)
  from f q s l r show ?thesis by simp
qed

text \<open>
  C8. When the normalisation does not throw and the proxy's start rejects with \<open>e\<close>, the
  turn in which the server is found listening starts the launcher, emits nothing and hands
  exactly one emit of \<open>e\<close> to \<^verbatim>\<open>process.nextTick\<close>; the callback is not queued. The next
  tick emits \<open>e\<close> once and leaves nothing queued. Through both turns \<^verbatim>\<open>this.httpServer\<close>
  stays as it was and no server is closed: the only events added are the launcher's start
  and the emitted error.
\<close>

theorem proxy_start_rejects:
  assumes "normalize_options options = (Returns (), options')"
  shows "(let w1 = invoke (EngineListening options listenCallback) innerAddress (Rejects e) w
          in nextTick w1 = nextTick w @ [EmitError e]
             \<and> (\<exists>l. trace w1 = trace w @ [LauncherStart l])
             \<and> engine_httpServer w1 = engine_httpServer w
             \<and> (nextTick w = [] \<longrightarrow>
                  (let w2 = run_tick laterAddress laterStart w1
                   in (\<exists>l. trace w2 = trace w @ [LauncherStart l, ErrorEmitted e])
                      \<and> engine_httpServer w2 = engine_httpServer w
                      \<and> nextTick w2 = []
                      \<and> run_tick lastAddress lastStart w2 = w2)))"
proof -
  have listening: "invoke (EngineListening options listenCallback) innerAddress (Rejects e) w
      = w\<lparr>trace := trace w @ [LauncherStart (make_launcherOptions (launcherOptions options')
                                     (make_defaults innerAddress options'))],
          nextTick := nextTick w @ [EmitError e]\<rparr>"
    by (simp add: invoke_returns [OF assms])
  show ?thesis
    unfolding Let_def listening by (simp add: run_tick_def)
qed

theorem proxy_start_rejects_witness:
  "normalize_options example_options = (Returns (), example_options)
   \<and> nextTick new_world = []
   \<and> nextTick (invoke (EngineListening example_options (Some (UserCallback 7))) example_address
        (Rejects (Error ''spawn failed'')) new_world) = [EmitError (Error ''spawn failed'')]
   \<and> engine_httpServer (run_tick example_address NeverSettles
        (invoke (EngineListening example_options (Some (UserCallback 7))) example_address
          (Rejects (Error ''spawn failed'')) new_world)) = engine_httpServer new_world
   \<and> nextTick (run_tick example_address NeverSettles
        (invoke (EngineListening example_options (Some (UserCallback 7))) example_address
          (Rejects (Error ''spawn failed'')) new_world)) = []"
proof -
  have n: "normalize_options example_options = (Returns (), example_options)"
    by (simp add: normalize_options_def only_one_def example_options_def)
  have q: "nextTick new_world = []" by (simp add: new_world_def)
  from proxy_start_rejects [OF n, where listenCallback = "Some (UserCallback 7)"
      and innerAddress = example_address and e = "Error ''spawn failed''" and w = new_world
      and laterAddress = example_address and laterStart = NeverSettles] n q
  show ?thesis by (simp add: Let_def)
qed



text \<open>
  C10. \<^verbatim>\<open>startEngine\<close> writes into the options object it is given, and into nothing of it
  but \<^verbatim>\<open>port\<close> and \<^verbatim>\<open>pipePath\<close>: every other property, also those of a larger
  interface, is as the caller left it. A string port with a number in it is overwritten
  by that number; a string port without a number that begins with the pipe prefix is moved
  to \<^verbatim>\<open>pipePath\<close> and \<^verbatim>\<open>port\<close> is unset; a port that is not a string leaves the
  object as it was.
\<close>

theorem startEngine_writes_options:
  "(\<exists>p q. fst (snd (startEngine innerAddress options start w)) = options\<lparr>port := p, pipePath := q\<rparr>)
   \<and> (port options = Some (StringPort s) \<and> parseInt s = Finite n \<longrightarrow>
        fst (snd (startEngine innerAddress options start w))
          = options\<lparr>port := Some (NumberPort (Finite n))\<rparr>)
   \<and> (port options = Some (StringPort s) \<and> parseInt s = NaN
        \<and> startsWith s (winPipePrefix @ [backslash]) \<longrightarrow>
        fst (snd (startEngine innerAddress options start w))
          = options\<lparr>port := None, pipePath := Some s\<rparr>)
   \<and> ((\<forall>t. port options \<noteq> Some (StringPort t)) \<longrightarrow>
        fst (snd (startEngine innerAddress options start w)) = options)"
proof -
  have se: "fst (snd (startEngine innerAddress options start w)) = snd (normalize_options options)"
    by (cases options rule: normalize_cases)
      (auto simp: startEngine_throws startEngine_returns split: outcome.splits)
  have a: "\<exists>p q. snd (normalize_options options) = options\<lparr>port := p, pipePath := q\<rparr>"
    by (rule normalize_frame)
  have b: "port options = Some (StringPort s) \<and> parseInt s = Finite n \<longrightarrow>
        snd (normalize_options options) = options\<lparr>port := Some (NumberPort (Finite n))\<rparr>"
    by (simp add: normalize_string_number)
  have c: "port options = Some (StringPort s) \<and> parseInt s = NaN
        \<and> startsWith s (winPipePrefix @ [backslash]) \<longrightarrow>
        snd (normalize_options options) = options\<lparr>port := None, pipePath := Some s\<rparr>"
    by (simp add: normalize_string_pipe)
  have d: "(\<forall>t. port options \<noteq> Some (StringPort t)) \<longrightarrow> snd (normalize_options options) = options"
    by (auto simp: normalize_options_def split: option.splits port_value.splits)
  show ?thesis unfolding se using a b c d by blast
qed

theorem startEngine_writes_options_witness:
  "port (example_options\<lparr>port := Some (StringPort ''8080'')\<rparr>) = Some (StringPort ''8080'')
   \<and> parseInt ''8080'' = Finite 8080
   \<and> fst (snd (startEngine example_address (example_options\<lparr>port := Some (StringPort ''8080'')\<rparr>)
        (Resolves proxy_address) new_world))
       = example_options\<lparr>port := Some (NumberPort (Finite 8080))\<rparr>
   \<and> port (example_options\<lparr>port := Some (StringPort example_pipe)\<rparr>) = Some (StringPort example_pipe)
   \<and> parseInt example_pipe = NaN \<and> startsWith example_pipe (winPipePrefix @ [backslash])
   \<and> fst (snd (startEngine example_address (example_options\<lparr>port := Some (StringPort example_pipe)\<rparr>)
        (Resolves proxy_address) new_world))
       = example_options\<lparr>port := None, pipePath := Some example_pipe\<rparr>
   \<and> (\<forall>t. port example_options \<noteq> Some (StringPort t))
   \<and> fst (snd (startEngine example_address example_options (Resolves proxy_address) new_world))
       = example_options"
proof -
  have a: "parseInt ''8080'' = Finite 8080"
    by (simp add: parseInt_def StrWhiteSpaceChar_def is_digit_def digits_value_def digit_value_def)
  have d: "parseInt example_pipe = NaN"
    by (simp add: parseInt_def example_pipe_def winPipePrefix_def backslash_def
        StrWhiteSpaceChar_def is_digit_def)
  have e: "startsWith example_pipe (winPipePrefix @ [backslash])"
    by (simp add: startsWith_def example_pipe_def)
  have f: "\<forall>t. port example_options \<noteq> Some (StringPort t)"
    by (simp add: example_options_def)
  from startEngine_writes_options [where options = "example_options\<lparr>port := Some (StringPort ''8080'')\<rparr>"
      and s = "''8080''" and n = 8080 and innerAddress = example_address
      and start = "Resolves proxy_address" and w = new_world]
    startEngine_writes_options [where options = "example_options\<lparr>port := Some (StringPort example_pipe)\<rparr>"
      and s = example_pipe and innerAddress = example_address
      and start = "Resolves proxy_address" and w = new_world]
    startEngine_writes_options [where options = example_options and innerAddress = example_address
      and start = "Resolves proxy_address" and w = new_world]
    a d e f
  show ?thesis by simp
qed

end
